theory Spec2Isabelle
  imports Complex_Main "HOL-Library.Sublist" "HOL-Library.Log_Nat"
begin

section \<open>Responses, sessions and errors\<close>

text \<open>
  The backend is an Express application. A handler answers through \<^verbatim>\<open>res\<close>:
  \<^verbatim>\<open>res.status(c).json(v)\<close> sends the JSON text of \<open>v\<close> with status \<open>c\<close>,
  \<^verbatim>\<open>res.json(v)\<close> sends it with status 200, and \<^verbatim>\<open>res.clearCookie(n)\<close> asks the
  client to drop a cookie. A response is the record of these three things; the body is
  the JSON document that is sent (a property whose value is \<^verbatim>\<open>undefined\<close> is left out by
  \<^verbatim>\<open>JSON.stringify\<close>, and \<^verbatim>\<open>NaN\<close> is written \<^verbatim>\<open>null\<close>).

  A JavaScript number is modelled by its exact value in \<^typ>\<open>real\<close>; \<^verbatim>\<open>NaN\<close> is the
  value \<open>None\<close> of \<^typ>\<open>real option\<close>, and the two infinities are outside the model. The
  one subtraction of the report handlers is written exactly; the sums and differences
  of the CollectionDue page round to IEEE doubles. Strings are \<^typ>\<open>string\<close>. Calls of
  \<^verbatim>\<open>console\<close> write to the process's log and are not part of the model.
\<close>

datatype json =
    JNull
  | JBool bool
  | JNum real
  | JStr string
  | JArr "json list"
  | JObj "(string \<times> json) list"

record response =
  status :: nat
  body :: json
  clearCookie :: "string list"

definition json_response :: "nat \<Rightarrow> json \<Rightarrow> response" where
  "json_response c v = \<lparr>status = c, body = v, clearCookie = []\<rparr>"

definition message_body :: "string \<Rightarrow> json" where
  "message_body m = JObj [(''message'', JStr m)]"

datatype js_error =
    ReferenceError string
  | TypeError string
  | RangeError string

text \<open>
  \<^verbatim>\<open>req.session.user\<close> is either unset or the object the login handler stored
  (\<^verbatim>\<open>id\<close>, \<^verbatim>\<open>username\<close>, \<^verbatim>\<open>role\<close>); \<^verbatim>\<open>checkPermission\<close> also reads an optional
  \<^verbatim>\<open>permissions\<close> array from it.
\<close>

record session_user =
  user_id :: int
  username :: string
  role :: string
  permissions :: "string list option"

record session =
  user :: "session_user option"

section \<open>The middleware of auth.js\<close>

text \<open>A middleware either calls \<^verbatim>\<open>next()\<close>, sends a response, or throws.\<close>

datatype mw_result =
    Next
  | Respond response
  | Throw js_error

text \<open>
  Identifier resolution inside \<^verbatim>\<open>checkPermission\<close>: the function's parameters and its
  local constant, the bindings of the module (its five top-level constants and the
  CommonJS wrapper's parameters), and the globals the module uses.
\<close>

definition checkPermission_scope :: "string list" where
  "checkPermission_scope =
     [''req'', ''res'', ''next'', ''userPermissions'',
      ''checkPermission'', ''checkAdmin'', ''checkAdminOrStaff'', ''authenticateUser'',
      ''authRouter'',
      ''exports'', ''require'', ''module'', ''__filename'', ''__dirname'',
      ''console'']"

definition resolve_identifier :: "string list \<Rightarrow> string \<Rightarrow> js_error + unit" where
  "resolve_identifier scope x =
     (if x \<in> set scope then Inr () else Inl (ReferenceError x))"

text \<open>
  \<^verbatim>\<open>
  const checkPermission = (req, res, next) => {
    if (!req.session.user) return res.status(401).json({ message: 'Unauthorized - Please log in' });
    if (req.session.user.role === 'admin') return next();
    const userPermissions = req.session.user.permissions || [];
    if (!userPermissions.includes(permission))
      return res.status(403).json({ message: 'Forbidden - Insufficient permissions' });
    next();
  };
  \<close>
  The argument \<^verbatim>\<open>permission\<close> is evaluated before \<^verbatim>\<open>includes\<close> is called. No binding
  in scope holds a string, so where the identifier resolves, the array of permission
  names does not include its value.
\<close>

definition checkPermission :: "session \<Rightarrow> mw_result" where
  "checkPermission s =
     (case user s of
        None \<Rightarrow> Respond (json_response 401 (message_body ''Unauthorized - Please log in''))
      | Some u \<Rightarrow>
          if role u = ''admin'' then Next
          else
            let userPermissions = (case permissions u of None \<Rightarrow> [] | Some ps \<Rightarrow> ps) in
            (case resolve_identifier checkPermission_scope ''permission'' of
               Inl e \<Rightarrow> Throw e
             | Inr _ \<Rightarrow>
                 Respond (json_response 403
                   (message_body ''Forbidden - Insufficient permissions''))))"

definition checkAdmin :: "session \<Rightarrow> mw_result" where
  "checkAdmin s =
     (case user s of
        None \<Rightarrow> Respond (json_response 401 (message_body ''Unauthorized - Please log in''))
      | Some u \<Rightarrow>
          if role u \<noteq> ''admin''
          then Respond (json_response 403 (message_body ''Forbidden: Admin access required''))
          else Next)"

definition checkAdminOrStaff :: "session \<Rightarrow> mw_result" where
  "checkAdminOrStaff s =
     (case user s of
        None \<Rightarrow> Respond (json_response 401 (message_body ''Unauthorized - Please log in''))
      | Some u \<Rightarrow>
          if role u = ''admin'' \<or> role u = ''staff'' then Next
          else Respond (json_response 403
                 (message_body ''Forbidden: Admin or Staff access required'')))"

definition authenticateUser :: "session \<Rightarrow> mw_result" where
  "authenticateUser s =
     (case user s of
        None \<Rightarrow> Respond (json_response 401 (message_body ''Unauthorized - Please log in''))
      | Some u \<Rightarrow>
          if user_id u \<noteq> 0 then Next
          else Respond (json_response 401 (message_body ''Unauthorized - Please log in'')))"

section \<open>Strings and numbers of the platform\<close>

text \<open>
  The built-in functions of JavaScript that the handlers call, on the inputs a handler
  can pass. Characters are the code units below 256.
\<close>

definition is_digit :: "char \<Rightarrow> bool" where
  "is_digit c = (c \<in> set ''0123456789'')"

definition digit_value :: "char \<Rightarrow> nat" where
  "digit_value c = of_char c - 48"

definition nat_of_digits :: "string \<Rightarrow> nat" where
  "nat_of_digits s = foldl (\<lambda>n c. 10 * n + digit_value c) 0 s"

text \<open>The regular expression \<^verbatim>\<open>/^\d{4}-\d{2}$/\<close>: without the \<^verbatim>\<open>m\<close> flag, \<^verbatim>\<open>$\<close> is the
  end of the input.\<close>

definition month_format :: "string \<Rightarrow> bool" where
  "month_format s =
     (length s = 7 \<and> list_all is_digit (take 4 s) \<and> s ! 4 = CHR ''-''
      \<and> list_all is_digit (drop 5 s))"

text \<open>\<^verbatim>\<open>s.split(sep)\<close> for a one-character separator.\<close>

fun split_on :: "char \<Rightarrow> string \<Rightarrow> string list" where
  "split_on sep [] = [[]]"
| "split_on sep (c # cs) =
     (if c = sep then [] # split_on sep cs
      else (case split_on sep cs of
              [] \<Rightarrow> [[c]]
            | p # ps \<Rightarrow> (c # p) # ps))"

text \<open>Array destructuring \<^verbatim>\<open>const [a, b] = xs\<close> reads \<^verbatim>\<open>xs[0]\<close> and \<^verbatim>\<open>xs[1]\<close>; an index past
  the end gives \<^verbatim>\<open>undefined\<close>, here \<open>None\<close>.\<close>

definition element :: "'a list \<Rightarrow> nat \<Rightarrow> 'a option" where
  "element xs i = (if i < length xs then Some (xs ! i) else None)"

text \<open>A template literal writes \<^verbatim>\<open>undefined\<close> as the word.\<close>

definition template_text :: "string option \<Rightarrow> string" where
  "template_text v = (case v of None \<Rightarrow> ''undefined'' | Some s \<Rightarrow> s)"

text \<open>
  \<^verbatim>\<open>ToNumber\<close>, which the \<^verbatim>\<open>Date\<close> constructor applies to its arguments: \<open>None\<close> is
  \<^verbatim>\<open>NaN\<close>. The handlers pass the two pieces of a string that has passed
  \<^const>\<open>month_format\<close>, which are strings of decimal digits; on those the value is the
  decimal number (leading zeros allowed). The empty string is 0 and \<^verbatim>\<open>undefined\<close> is
  \<^verbatim>\<open>NaN\<close>; the other numeric literal forms are not decoded.
\<close>

definition ToNumber :: "string option \<Rightarrow> int option" where
  "ToNumber v =
     (case v of
        None \<Rightarrow> None
      | Some s \<Rightarrow> if list_all is_digit s then Some (int (nat_of_digits s)) else None)"

text \<open>
  \<^verbatim>\<open>parseInt(s, 10)\<close>: leading white space is skipped, a sign is read, and the longest
  run of decimal digits is the value; with no digit the result is \<^verbatim>\<open>NaN\<close>.
\<close>

definition is_whitespace :: "char \<Rightarrow> bool" where
  "is_whitespace c =
     (c \<in> {CHR 0x09, CHR 0x0A, CHR 0x0B, CHR 0x0C, CHR 0x0D, CHR 0x20, CHR 0xA0})"

definition parseInt10 :: "string \<Rightarrow> int option" where
  "parseInt10 str =
     (let s = dropWhile is_whitespace str;
          neg = (s \<noteq> [] \<and> hd s = CHR ''-'');
          s' = (if s \<noteq> [] \<and> (hd s = CHR ''-'' \<or> hd s = CHR ''+'') then tl s else s);
          z = takeWhile is_digit s'
      in if z = [] then None
         else Some ((if neg then - 1 else 1) * int (nat_of_digits z)))"

text \<open>Decimal digits of a number, and the number left-padded with zeros.\<close>

fun digits :: "nat \<Rightarrow> string" where
  "digits n =
     (if n < 10 then [''0123456789'' ! n]
      else digits (n div 10) @ [''0123456789'' ! (n mod 10)])"

declare digits.simps [simp del]

definition pad :: "nat \<Rightarrow> nat \<Rightarrow> string" where
  "pad w n = replicate (w - length (digits n)) CHR ''0'' @ digits n"

section \<open>Dates\<close>

text \<open>
  The days of the proleptic Gregorian calendar, counted from 1970-01-01 as ECMAScript
  counts them: \<open>days_from_civil y m d\<close> is the day number of the date with month
  \<open>m\<close> in 1..12, and \<open>civil_from_days\<close> is its inverse (the year, month and day of
  \<^verbatim>\<open>YearFromTime\<close>, \<^verbatim>\<open>MonthFromTime\<close> + 1 and \<^verbatim>\<open>DateFromTime\<close>).
\<close>

definition msPerDay :: int where
  "msPerDay = 86400000"

definition days_from_civil :: "int \<Rightarrow> int \<Rightarrow> int \<Rightarrow> int" where
  "days_from_civil y m d =
     (let y' = (if m \<le> 2 then y - 1 else y);
          era = y' div 400;
          yoe = y' mod 400;
          doy = (153 * (if m > 2 then m - 3 else m + 9) + 2) div 5 + d - 1;
          doe = yoe * 365 + yoe div 4 - yoe div 100 + doy
      in era * 146097 + doe - 719468)"

definition civil_from_days :: "int \<Rightarrow> int \<times> int \<times> int" where
  "civil_from_days n =
     (let z = n + 719468;
          era = z div 146097;
          doe = z mod 146097;
          yoe = (doe - doe div 1460 + doe div 36524 - doe div 146096) div 365;
          doy = doe - (365 * yoe + yoe div 4 - yoe div 100);
          mp = (5 * doy + 2) div 153;
          d = doy - (153 * mp + 2) div 5 + 1;
          m = (if mp < 10 then mp + 3 else mp - 9);
          y = yoe + era * 400 + (if m \<le> 2 then 1 else 0)
      in (y, m, d))"

text \<open>\<^verbatim>\<open>MakeDay(year, month, date)\<close>: \<open>month\<close> is an index from 0 and may lie outside
  0..11, in which case it carries into the year.\<close>

definition MakeDay :: "int \<Rightarrow> int \<Rightarrow> int \<Rightarrow> int" where
  "MakeDay year month date =
     days_from_civil (year + month div 12) (month mod 12 + 1) 1 + date - 1"

text \<open>
  \<^verbatim>\<open>new Date(year, month, date)\<close>: a year from 0 to 99 means 1900 + year; the fields
  are read in local time, so the time value is the local midnight moved by the local
  offset from UTC (\<open>tza t\<close>, in milliseconds, positive east of Greenwich). A time value
  outside the range of \<^verbatim>\<open>TimeClip\<close>, or a \<^verbatim>\<open>NaN\<close> argument, gives an invalid date,
  here \<open>None\<close>.
\<close>

definition new_Date :: "(int \<Rightarrow> int) \<Rightarrow> int option \<Rightarrow> int option \<Rightarrow> int \<Rightarrow> int option" where
  "new_Date tza year month date =
     (case year of
        None \<Rightarrow> None
      | Some y \<Rightarrow>
          (case month of
             None \<Rightarrow> None
           | Some m \<Rightarrow>
               let yr = (if 0 \<le> y \<and> y \<le> 99 then 1900 + y else y);
                   t = MakeDay yr m date * msPerDay;
                   tv = t - tza t
               in if \<bar>tv\<bar> \<le> 8640000000000000 then Some tv else None))"

text \<open>\<^verbatim>\<open>toISOString()\<close> writes the UTC fields of the time value as
  \<^verbatim>\<open>YYYY-MM-DDTHH:mm:ss.sssZ\<close> (a year outside 0..9999 with a sign and six digits), and
  throws a RangeError on an invalid date.\<close>

definition iso_year :: "int \<Rightarrow> string" where
  "iso_year y =
     (if 0 \<le> y \<and> y \<le> 9999 then pad 4 (nat y)
      else (if y < 0 then ''-'' else ''+'') @ pad 6 (nat \<bar>y\<bar>))"

definition toISOString :: "int option \<Rightarrow> js_error + string" where
  "toISOString d =
     (case d of
        None \<Rightarrow> Inl (RangeError ''Invalid time value'')
      | Some tv \<Rightarrow>
          (case civil_from_days (tv div msPerDay) of
             (y, m, dd) \<Rightarrow>
               let ms = tv mod msPerDay in
               Inr (iso_year y @ ''-'' @ pad 2 (nat m) @ ''-'' @ pad 2 (nat dd) @ ''T''
                    @ pad 2 (nat (ms div 3600000)) @ '':''
                    @ pad 2 (nat (ms mod 3600000 div 60000)) @ '':''
                    @ pad 2 (nat (ms mod 60000 div 1000)) @ ''.''
                    @ pad 3 (nat (ms mod 1000)) @ ''Z'')))"

section \<open>The database and the environment of a request\<close>

text \<open>
  \<^verbatim>\<open>pool.query(sql, params)\<close> is a call to the database. The SQL texts of the repository
  are named rather than spelled out: the two profit-and-loss sums (the flag says whether
  \<^verbatim>\<open>AND branch_id = $3\<close> was appended), the monthly collections listing, and the users
  lookup of the login. A result is the list of rows, each an association from column
  names to cells, or the error the promise was rejected with.
\<close>

datatype query =
    CollectionsQuery bool
  | ExpensesQuery bool
  | MonthlyCollectionsQuery
  | UserByUsernameQuery

datatype param = PStr string | PNum int

datatype cell = CNull | CNum real | CStr string

type_synonym row = "(string \<times> cell) list"

record user_row =
  row_id :: int
  row_username :: string
  row_password :: string
  row_role :: string

datatype db_error = DbError string

datatype failure = Rejected db_error | Thrown js_error

definition failure_message :: "failure \<Rightarrow> string" where
  "failure_message f =
     (case f of
        Rejected (DbError m) \<Rightarrow> m
      | Thrown (ReferenceError m) \<Rightarrow> m
      | Thrown (TypeError m) \<Rightarrow> m
      | Thrown (RangeError m) \<Rightarrow> m)"

text \<open>
  What a request handler depends on besides the request and the session: the database
  (the report queries, and the users table with its typed columns), the platform's
  \<^verbatim>\<open>parseFloat\<close> (\<open>None\<close> is \<^verbatim>\<open>NaN\<close>), the local time zone of the server process, and
  the outcome of destroying a session in the session store.
\<close>

record env =
  pool :: "query \<Rightarrow> param list \<Rightarrow> db_error + row list"
  users :: "string \<Rightarrow> db_error + user_row list"
  parseFloat :: "string \<Rightarrow> real option"
  LocalTZA :: "int \<Rightarrow> int"
  store_destroy :: "db_error option"

type_synonym query_log = "(query \<times> param list) list"

text \<open>\<^verbatim>\<open>parseFloat(v)\<close> of a property of a row: a missing property is \<^verbatim>\<open>undefined\<close> and,
  like \<^verbatim>\<open>null\<close>, parses to \<^verbatim>\<open>NaN\<close>; a number parses to itself.\<close>

definition parseFloat_cell :: "env \<Rightarrow> cell option \<Rightarrow> real option" where
  "parseFloat_cell e v =
     (case v of
        None \<Rightarrow> None
      | Some CNull \<Rightarrow> None
      | Some (CNum r) \<Rightarrow> Some r
      | Some (CStr s) \<Rightarrow> parseFloat e s)"

text \<open>\<^verbatim>\<open>x || 0\<close> on a number: \<^verbatim>\<open>NaN\<close> and 0 are the falsy ones.\<close>

definition or_zero :: "real option \<Rightarrow> real" where
  "or_zero v = (case v of None \<Rightarrow> 0 | Some r \<Rightarrow> if r = 0 then 0 else r)"

definition cell_json :: "cell \<Rightarrow> json" where
  "cell_json c = (case c of CNull \<Rightarrow> JNull | CNum r \<Rightarrow> JNum r | CStr s \<Rightarrow> JStr s)"

definition property :: "string \<Rightarrow> cell option \<Rightarrow> (string \<times> json) list" where
  "property k v = (case v of None \<Rightarrow> [] | Some c \<Rightarrow> [(k, cell_json c)])"

definition number_json :: "real option \<Rightarrow> json" where
  "number_json v = (case v of None \<Rightarrow> JNull | Some r \<Rightarrow> JNum r)"

definition server_error :: "string \<Rightarrow> failure \<Rightarrow> response" where
  "server_error m f =
     json_response 500 (JObj [(''message'', JStr m), (''error'', JStr (failure_message f))])"

section \<open>The report routes of reports.js\<close>

definition invalid_month :: response where
  "invalid_month = json_response 400 (message_body ''Invalid month format, use YYYY-MM'')"

text \<open>
  Lines 39 to 51 of the profit-and-loss handler: the two queries, one after the other,
  then the first row of each. A rejected query and a missing first row both end in the
  \<^verbatim>\<open>catch\<close> block.
\<close>

definition profit_loss_queries ::
  "env \<Rightarrow> string \<Rightarrow> bool \<Rightarrow> param list \<Rightarrow> response \<times> query_log" where
  "profit_loss_queries e month branch params =
     (case pool e (CollectionsQuery branch) params of
        Inl err \<Rightarrow>
          (server_error ''Server error'' (Rejected err), [(CollectionsQuery branch, params)])
      | Inr collectionsRows \<Rightarrow>
          let log = [(CollectionsQuery branch, params), (ExpensesQuery branch, params)] in
          (case pool e (ExpensesQuery branch) params of
             Inl err \<Rightarrow> (server_error ''Server error'' (Rejected err), log)
           | Inr expensesRows \<Rightarrow>
               (case collectionsRows of
                  [] \<Rightarrow>
                    (server_error ''Server error''
                       (Thrown (TypeError
                          ''Cannot read properties of undefined (reading 'total_collected')'')),
                     log)
                | c # _ \<Rightarrow>
                    (case expensesRows of
                       [] \<Rightarrow>
                         (server_error ''Server error''
                            (Thrown (TypeError
                               ''Cannot read properties of undefined (reading 'total_expenses')'')),
                          log)
                     | x # _ \<Rightarrow>
                         let totalCollected =
                               or_zero (parseFloat_cell e (map_of c ''total_collected''));
                             totalExpenses =
                               or_zero (parseFloat_cell e (map_of x ''total_expenses''));
                             profitLoss = totalCollected - totalExpenses
                         in (json_response 200
                               (JObj [(''month'', JStr month),
                                      (''totalCollected'', JNum totalCollected),
                                      (''totalExpenses'', JNum totalExpenses),
                                      (''profitLoss'', JNum profitLoss)]),
                             log)))))"

text \<open>
  \<^verbatim>\<open>
  const { month, branchId } = req.query;
  if (!month || !/^\d{4}-\d{2}$/.test(month)) return res.status(400).json(...);
  const [year, monthNum] = month.split('-');
  const startDate = `${year}-${monthNum}-01`;
  const endDate = new Date(year, monthNum, 0).toISOString().split('T')[0];
  let params = [startDate, endDate];
  if (branchId) {
    const branchIdNum = parseInt(branchId, 10);
    if (isNaN(branchIdNum)) return res.status(400).json({ message: 'Invalid branch ID' });
    ...; params.push(branchIdNum);
  }
  \<close>
  A query parameter is modelled as given at most once and without brackets: it is
  absent or a string, of which the empty one is falsy. A repeated or bracketed
  parameter, which the query parser delivers as an array or an object, is outside the
  model.
\<close>

definition profit_loss ::
  "env \<Rightarrow> string option \<Rightarrow> string option \<Rightarrow> response \<times> query_log" where
  "profit_loss e month branchId =
     (case month of
        None \<Rightarrow> (invalid_month, [])
      | Some mo \<Rightarrow>
          if mo = [] \<or> \<not> month_format mo then (invalid_month, [])
          else
            let parts = split_on CHR ''-'' mo;
                year = element parts 0;
                monthNum = element parts 1;
                startDate = template_text year @ ''-'' @ template_text monthNum @ ''-01''
            in (case toISOString (new_Date (LocalTZA e) (ToNumber year) (ToNumber monthNum) 0) of
                  Inl err \<Rightarrow> (server_error ''Server error'' (Thrown err), [])
                | Inr isoString \<Rightarrow>
                    let endDate = hd (split_on CHR ''T'' isoString);
                        params = [PStr startDate, PStr endDate]
                    in (case branchId of
                          None \<Rightarrow> profit_loss_queries e mo False params
                        | Some b \<Rightarrow>
                            if b = [] then profit_loss_queries e mo False params
                            else
                              (case parseInt10 b of
                                 None \<Rightarrow>
                                   (json_response 400 (message_body ''Invalid branch ID''), [])
                               | Some branchIdNum \<Rightarrow>
                                   profit_loss_queries e mo True
                                     (params @ [PNum branchIdNum])))))"

text \<open>One element of \<^verbatim>\<open>records\<close> in the monthly collections response.\<close>

definition collection_record :: "env \<Rightarrow> row \<Rightarrow> json" where
  "collection_record e r =
     JObj (property ''studentId'' (map_of r ''student_id'')
         @ property ''studentName'' (map_of r ''student_name'')
         @ property ''email'' (map_of r ''email'')
         @ property ''phone'' (map_of r ''phone'')
         @ [(''totalFee'', JNum (or_zero (parseFloat_cell e (map_of r ''total_fee'')))),
            (''amountPaid'', JNum (or_zero (parseFloat_cell e (map_of r ''amount_paid'')))),
            (''dueAmount'', JNum (or_zero (parseFloat_cell e (map_of r ''due_amount'')))),
            (''collected'', number_json (parseFloat_cell e (map_of r ''total_collected''))),
            (''due'', number_json (parseFloat_cell e (map_of r ''total_due'')))])"

text \<open>
  \<^verbatim>\<open>
  const [y, m] = month.split('-');
  const start = `${y}-${m}-01`;
  const end = new Date(y, m, 0).toISOString().slice(0, 10);
  const { rows } = await pool.query(sql, [start, end]);
  res.json({ month, records: rows.map(...) });
  \<close>
\<close>

definition monthly_collections :: "env \<Rightarrow> string option \<Rightarrow> response \<times> query_log" where
  "monthly_collections e month =
     (case month of
        None \<Rightarrow> (invalid_month, [])
      | Some mo \<Rightarrow>
          if mo = [] \<or> \<not> month_format mo then (invalid_month, [])
          else
            let parts = split_on CHR ''-'' mo;
                y = element parts 0;
                m = element parts 1;
                start = template_text y @ ''-'' @ template_text m @ ''-01''
            in (case toISOString (new_Date (LocalTZA e) (ToNumber y) (ToNumber m) 0) of
                  Inl err \<Rightarrow> (server_error ''Server error'' (Thrown err), [])
                | Inr isoString \<Rightarrow>
                    let endDate = take 10 isoString;
                        params = [PStr start, PStr endDate]
                    in (case pool e MonthlyCollectionsQuery params of
                          Inl err \<Rightarrow>
                            (server_error ''Server error'' (Rejected err),
                             [(MonthlyCollectionsQuery, params)])
                        | Inr rows \<Rightarrow>
                            (json_response 200
                               (JObj [(''month'', JStr mo),
                                      (''records'', JArr (map (collection_record e) rows))]),
                             [(MonthlyCollectionsQuery, params)]))))"

section \<open>The routes of auth.js\<close>

text \<open>
  What handling one request leaves behind: the response, the session as the session
  store holds it afterwards (\<open>None\<close> once it is destroyed), and the database calls made,
  in order.
\<close>

record outcome =
  reply :: response
  session_after :: "session option"
  queries :: query_log

record login_body =
  body_username :: "string option"
  body_password :: "string option"

definition user_json :: "int \<Rightarrow> string \<Rightarrow> string \<Rightarrow> json" where
  "user_json i n r = JObj [(''id'', JNum (of_int i)), (''username'', JStr n), (''role'', JStr r)]"

text \<open>
  \<^verbatim>\<open>POST /login\<close>. The body is the parsed JSON body (\<open>None\<close> when \<^verbatim>\<open>req.body\<close> is
  undefined, where the destructuring throws inside the \<^verbatim>\<open>try\<close>); a missing and an
  empty \<^verbatim>\<open>username\<close> or \<^verbatim>\<open>password\<close> are both falsy. On matching credentials the
  handler assigns \<^verbatim>\<open>req.session.user\<close>.
\<close>

definition missing_credentials :: response where
  "missing_credentials = json_response 400 (message_body ''Username and password are required'')"

definition login :: "env \<Rightarrow> login_body option \<Rightarrow> session \<Rightarrow> outcome" where
  "login e b s =
     (case b of
        None \<Rightarrow>
          \<lparr>reply = server_error ''Server error during login''
                     (Thrown (TypeError ''Cannot destructure property 'username' of 'req.body' as it is undefined.'')),
           session_after = Some s, queries = []\<rparr>
      | Some bd \<Rightarrow>
          (case body_username bd of
             None \<Rightarrow> \<lparr>reply = missing_credentials, session_after = Some s, queries = []\<rparr>
           | Some uname \<Rightarrow>
               (case body_password bd of
                  None \<Rightarrow> \<lparr>reply = missing_credentials, session_after = Some s, queries = []\<rparr>
                | Some pw \<Rightarrow>
                    if uname = [] \<or> pw = []
                    then \<lparr>reply = missing_credentials, session_after = Some s, queries = []\<rparr>
                    else
                      (case users e uname of
                         Inl err \<Rightarrow>
                           \<lparr>reply = server_error ''Server error during login'' (Rejected err),
                            session_after = Some s,
                            queries = [(UserByUsernameQuery, [PStr uname])]\<rparr>
                       | Inr [] \<Rightarrow>
                           \<lparr>reply = json_response 401 (message_body ''Invalid credentials''),
                            session_after = Some s,
                            queries = [(UserByUsernameQuery, [PStr uname])]\<rparr>
                       | Inr (u # _) \<Rightarrow>
                           if pw \<noteq> row_password u
                           then \<lparr>reply = json_response 401 (message_body ''Invalid credentials''),
                                 session_after = Some s,
                                 queries = [(UserByUsernameQuery, [PStr uname])]\<rparr>
                           else
                             \<lparr>reply = json_response 200
                                (JObj [(''message'', JStr ''Login successful''),
                                       (''user'',
                                        user_json (row_id u) (row_username u) (row_role u))]),
                              session_after =
                                Some (s\<lparr>user := Some \<lparr>user_id = row_id u,
                                                       username = row_username u,
                                                       role = row_role u,
                                                       permissions = None\<rparr>\<rparr>),
                              queries = [(UserByUsernameQuery, [PStr uname])]\<rparr>))))"

text \<open>
  \<^verbatim>\<open>GET /logout\<close>: \<^verbatim>\<open>req.session.destroy(cb)\<close> removes the session from the store and
  calls back with the store's error, if any; a store that fails keeps the session.
\<close>

definition logout :: "env \<Rightarrow> session \<Rightarrow> outcome" where
  "logout e s =
     (case store_destroy e of
        Some err \<Rightarrow>
          \<lparr>reply = json_response 500 (message_body ''Could not log out, please try again.''),
           session_after = Some s, queries = []\<rparr>
      | None \<Rightarrow>
          \<lparr>reply = \<lparr>status = 200, body = message_body ''Logout successful'',
                     clearCookie = [''connect.sid'']\<rparr>,
           session_after = None, queries = []\<rparr>)"

text \<open>\<^verbatim>\<open>GET /status\<close>.\<close>

definition auth_status :: "session \<Rightarrow> outcome" where
  "auth_status s =
     \<lparr>reply = json_response 200
        (case user s of
           Some u \<Rightarrow>
             JObj [(''isAuthenticated'', JBool True),
                   (''user'', user_json (user_id u) (username u) (role u))]
         | None \<Rightarrow> JObj [(''isAuthenticated'', JBool False), (''user'', JNull)]),
      session_after = Some s, queries = []\<rparr>"

section \<open>Routing\<close>

text \<open>
  A request to one of the five routes of the two routers. A route with middleware runs
  its handler only when the middleware calls \<^verbatim>\<open>next()\<close>; when a middleware throws,
  Express answers with its own error page, status 500, which is not a JSON object.
\<close>

datatype request =
    GetProfitLoss "string option" "string option"
  | GetMonthlyCollections "string option"
  | PostLogin "login_body option"
  | GetLogout
  | GetStatus

definition express_error_page :: response where
  "express_error_page = \<lparr>status = 500, body = JStr ''Internal Server Error'', clearCookie = []\<rparr>"

definition guarded :: "mw_result \<Rightarrow> session \<Rightarrow> response \<times> query_log \<Rightarrow> outcome" where
  "guarded mw s h =
     (case mw of
        Next \<Rightarrow> \<lparr>reply = fst h, session_after = Some s, queries = snd h\<rparr>
      | Respond r \<Rightarrow> \<lparr>reply = r, session_after = Some s, queries = []\<rparr>
      | Throw err \<Rightarrow> \<lparr>reply = express_error_page, session_after = Some s, queries = []\<rparr>)"

definition handle :: "env \<Rightarrow> request \<Rightarrow> session \<Rightarrow> outcome" where
  "handle e rq s =
     (case rq of
        GetProfitLoss month branchId \<Rightarrow>
          guarded (checkAdminOrStaff s) s (profit_loss e month branchId)
      | GetMonthlyCollections month \<Rightarrow>
          guarded (checkAdminOrStaff s) s (monthly_collections e month)
      | PostLogin b \<Rightarrow> login e b s
      | GetLogout \<Rightarrow> logout e s
      | GetStatus \<Rightarrow> auth_status s)"

section \<open>The AllStudents page\<close>


text \<open>\<^verbatim>\<open>s.includes(t)\<close>: \<open>t\<close> occurs in \<open>s\<close> as a contiguous run.\<close>

definition includes_str :: "string \<Rightarrow> string \<Rightarrow> bool" where
  "includes_str s t = sublist t s"





section \<open>Sums and differences of IEEE doubles\<close>

text \<open>
  The amounts of the CollectionDue page are JavaScript numbers, that is IEEE 754 doubles,
  and \<^verbatim>\<open>+\<close> and \<^verbatim>\<open>-\<close> on them give the double nearest to the exact result, a tie going to
  the even mantissa. A finite double is kept as its exact value in \<^typ>\<open>real\<close>:
  \<open>round_double x\<close> is the double nearest to \<open>x\<close>, with 53 bits of mantissa at the binary
  exponent of \<open>x\<close> and the spacing of the subnormal numbers below \<open>2\<close> to the \<open>-1022\<close>. It is
  also the number that a decimal literal or \<^verbatim>\<open>parseFloat\<close> of a decimal text denotes.
  A result whose magnitude would reach \<open>2\<close> to the 1024 is \<^verbatim>\<open>Infinity\<close> in JavaScript and
  outside the model, and the sign of zero is not kept.
\<close>

definition pow2 :: "int \<Rightarrow> real" where
  "pow2 k = (if 0 \<le> k then 2 ^ nat k else 1 / 2 ^ nat (- k))"

text \<open>The binary exponent of a number other than 0: the \<open>e\<close> with
  \<open>pow2 e \<le> \<bar>x\<bar> < pow2 (e + 1)\<close>.\<close>

definition exponent_of :: "real \<Rightarrow> int" where
  "exponent_of x =
     (if 1 \<le> \<bar>x\<bar> then bitlen \<lfloor>\<bar>x\<bar>\<rfloor> - 1
      else
        let f = bitlen \<lfloor>1 / \<bar>x\<bar>\<rfloor> - 1
        in if \<bar>x\<bar> * pow2 f = 1 then - f else - f - 1)"

text \<open>The nearest integer, a tie going to the even one.\<close>

definition round_even :: "real \<Rightarrow> int" where
  "round_even q =
     (let f = \<lfloor>q\<rfloor>; r = q - of_int f
      in if r < 1 / 2 then f
         else if 1 / 2 < r then f + 1
         else if even f then f else f + 1)"

definition round_double :: "real \<Rightarrow> real" where
  "round_double x =
     (if x = 0 then 0
      else
        let e = max (exponent_of x) (- 1022);
            u = pow2 (e - 52)
        in of_int (round_even (x / u)) * u)"

definition js_add :: "real \<Rightarrow> real \<Rightarrow> real" where
  "js_add a b = round_double (a + b)"

definition js_sub :: "real \<Rightarrow> real \<Rightarrow> real" where
  "js_sub a b = round_double (a - b)"

text \<open>A whole, non-negative amount below \<open>2\<close> to the 52: sums and differences of two such
  amounts are doubles.\<close>

definition whole_amount :: "real \<Rightarrow> bool" where
  "whole_amount x = (x = of_int \<lfloor>x\<rfloor> \<and> 0 \<le> x \<and> x < 2 ^ 52)"

section \<open>The CollectionDue page\<close>

record collection =
  historyId :: int
  studentId :: int
  name :: string
  shiftTitle :: "string option"
  totalFee :: real
  amountPaid :: real
  dueAmount :: real
  cash :: real
  online :: real
  securityMoney :: real
  remark :: string
  createdAt :: "string option"
  branchId :: "int option"
  branchName :: "string option"
  phone :: string

datatype payment_method = Cash | Online

text \<open>
  The object the optimistic update puts in place of a matching entry:
  \<^verbatim>\<open>
  { ...c,
    amountPaid: c.amountPaid + payment,
    dueAmount: c.dueAmount - payment,
    ...(paymentMethod === 'cash' && { cash: c.cash + payment }),
    ...(paymentMethod === 'online' && { online: c.online + payment }) }
  \<close>
  The sums and the difference are those of doubles.
\<close>

definition paid :: "payment_method \<Rightarrow> real \<Rightarrow> collection \<Rightarrow> collection" where
  "paid m payment c =
     (let c1 = c\<lparr>amountPaid := js_add (amountPaid c) payment,
                 dueAmount := js_sub (dueAmount c) payment\<rparr>;
          c2 = (if m = Cash then c1\<lparr>cash := js_add (cash c) payment\<rparr> else c1)
      in if m = Online then c2\<lparr>online := js_add (online c) payment\<rparr> else c2)"

definition updatedCollections ::
  "collection list \<Rightarrow> collection \<Rightarrow> payment_method \<Rightarrow> real \<Rightarrow> collection list" where
  "updatedCollections collections selectedCollection m payment =
     map (\<lambda>c. if historyId c = historyId selectedCollection then paid m payment c else c)
       collections"

text \<open>
  The state of the page that \<^verbatim>\<open>handlePaymentSubmit\<close> reads and writes, and the toasts
  it shows.
\<close>

record page_state =
  collections :: "collection list"
  selectedCollection :: "collection option"
  paymentAmount :: string
  paymentMethod :: "payment_method option"
  isSubmitting :: bool
  isPayModalOpen :: bool

datatype toast =
    SelectMethodAndAmount
  | InvalidAmount real
  | PaymentUpdated
  | PaymentFailed string

text \<open>
  The handler runs in two parts, before and after \<^verbatim>\<open>await\<close>. The first validates the
  form, keeps \<^verbatim>\<open>originalCollections\<close>, puts the updated list in place and sends the
  request. What it keeps for the second part is the pending request.
\<close>

record pending =
  originalCollections :: "collection list"
  pending_historyId :: int
  pending_amount :: real
  pending_method :: payment_method

definition submit_begin ::
  "(string \<Rightarrow> real option) \<Rightarrow> page_state \<Rightarrow> page_state \<times> toast list \<times> pending option" where
  "submit_begin parseFloat_js st =
     (case selectedCollection st of
        None \<Rightarrow> (st, [SelectMethodAndAmount], None)
      | Some sel \<Rightarrow>
          (case paymentMethod st of
             None \<Rightarrow> (st, [SelectMethodAndAmount], None)
           | Some m \<Rightarrow>
               if paymentAmount st = [] then (st, [SelectMethodAndAmount], None)
               else
                 (case parseFloat_js (paymentAmount st) of
                    None \<Rightarrow> (st, [InvalidAmount (dueAmount sel)], None)
                  | Some payment \<Rightarrow>
                      if payment \<le> 0 \<or> payment > dueAmount sel
                      then (st, [InvalidAmount (dueAmount sel)], None)
                      else
                        (st\<lparr>isSubmitting := True,
                            collections := updatedCollections (collections st) sel m payment,
                            isPayModalOpen := False\<rparr>,
                         [],
                         Some \<lparr>originalCollections = collections st,
                               pending_historyId = historyId sel,
                               pending_amount = payment,
                               pending_method = m\<rparr>))))"

text \<open>
  The second part runs when the request settles, on the state of the page at that time:
  on success a toast, on failure \<^verbatim>\<open>setCollections(originalCollections)\<close> and a toast with
  \<^verbatim>\<open>err.message\<close> or a default text; \<^verbatim>\<open>finally\<close> clears \<^verbatim>\<open>isSubmitting\<close>.
\<close>

datatype api_result = Resolved | Failed "string option"

definition submit_end :: "pending \<Rightarrow> api_result \<Rightarrow> page_state \<Rightarrow> page_state \<times> toast list" where
  "submit_end p r st =
     (case r of
        Resolved \<Rightarrow> (st\<lparr>isSubmitting := False\<rparr>, [PaymentUpdated])
      | Failed msg \<Rightarrow>
          (st\<lparr>collections := originalCollections p, isSubmitting := False\<rparr>,
           [PaymentFailed
              (case msg of
                 None \<Rightarrow> ''Failed to update payment. Please try again.''
               | Some m \<Rightarrow>
                   if m = [] then ''Failed to update payment. Please try again.'' else m)]))"

text \<open>The whole handler, when nothing else touches the page while the request is out.\<close>

definition handlePaymentSubmit ::
  "(string \<Rightarrow> real option) \<Rightarrow> (int \<Rightarrow> real \<Rightarrow> payment_method \<Rightarrow> api_result)
     \<Rightarrow> page_state \<Rightarrow> page_state \<times> toast list" where
  "handlePaymentSubmit parseFloat_js updateCollectionPayment st =
     (case submit_begin parseFloat_js st of
        (st1, ts, None) \<Rightarrow> (st1, ts)
      | (st1, ts, Some p) \<Rightarrow>
          (case submit_end p
                  (updateCollectionPayment (pending_historyId p) (pending_amount p)
                     (pending_method p)) st1 of
             (st2, ts2) \<Rightarrow> (st2, ts @ ts2)))"

section \<open>Reading a response\<close>

text \<open>The \<^verbatim>\<open>message\<close> field of a JSON body, when the body is an object that has the field
  and the field is a string.\<close>

definition message_of :: "json \<Rightarrow> string option" where
  "message_of j =
     (case j of
        JObj fs \<Rightarrow> (case map_of fs ''message'' of Some (JStr m) \<Rightarrow> Some m | _ \<Rightarrow> None)
      | _ \<Rightarrow> None)"

text \<open>An error reply: one of the four error statuses, and a body with a message.\<close>

definition error_reply :: "response \<Rightarrow> bool" where
  "error_reply r =
     (status r \<in> {400, 401, 403, 500} \<and> message_of (body r) \<noteq> None)"

section \<open>Example data\<close>

text \<open>
  A small database, two sessions and a server clock for evaluating the handlers: the
  collections sum is 1500.00 and the expenses sum 400.50, \<^verbatim>\<open>parseFloat\<close> is given on
  these two texts, and the users table holds one administrator. The argument of
  \<open>example_env\<close> is the server's offset from UTC in milliseconds.
\<close>

definition example_parseFloat :: "string \<Rightarrow> real option" where
  "example_parseFloat s =
     (if s = ''1500.00'' then Some 1500 else if s = ''400.50'' then Some (801 / 2) else None)"

definition example_pool :: "query \<Rightarrow> param list \<Rightarrow> db_error + row list" where
  "example_pool q ps =
     (case q of
        CollectionsQuery _ \<Rightarrow> Inr [[(''total_collected'', CStr ''1500.00'')]]
      | ExpensesQuery _ \<Rightarrow> Inr [[(''total_expenses'', CStr ''400.50'')]]
      | MonthlyCollectionsQuery \<Rightarrow> Inr []
      | UserByUsernameQuery \<Rightarrow> Inr [])"

definition example_users :: "string \<Rightarrow> db_error + user_row list" where
  "example_users n =
     (if n = ''asha''
      then Inr [\<lparr>row_id = 1, row_username = ''asha'', row_password = ''s3cret'',
                 row_role = ''admin''\<rparr>]
      else Inr [])"

definition example_env :: "int \<Rightarrow> env" where
  "example_env offset =
     \<lparr>pool = example_pool, users = example_users, parseFloat = example_parseFloat,
      LocalTZA = (\<lambda>t. offset), store_destroy = None\<rparr>"

definition admin_session :: session where
  "admin_session =
     \<lparr>user = Some \<lparr>user_id = 1, username = ''asha'', role = ''admin'', permissions = None\<rparr>\<rparr>"

definition no_session :: session where
  "no_session = \<lparr>user = None\<rparr>"

definition member_session :: session where
  "member_session =
     \<lparr>user = Some \<lparr>user_id = 9, username = ''ravi'', role = ''member'', permissions = None\<rparr>\<rparr>"


definition example_collections :: "collection list" where
  "example_collections =
     [\<lparr>historyId = 11, studentId = 1, name = ''Asha Verma'', shiftTitle = Some ''Morning'',
       totalFee = 1000, amountPaid = 500, dueAmount = 500, cash = 500, online = 0,
       securityMoney = 0, remark = '''', createdAt = Some ''2024-01-05'',
       branchId = Some 1, branchName = Some ''Main'', phone = ''9876543210''\<rparr>,
      \<lparr>historyId = 12, studentId = 2, name = ''Ravi Kumar'', shiftTitle = None,
       totalFee = 800, amountPaid = 800, dueAmount = 0, cash = 300, online = 500,
       securityMoney = 100, remark = '''', createdAt = None,
       branchId = None, branchName = None, phone = ''N/A''\<rparr>]"

definition example_page :: page_state where
  "example_page =
     \<lparr>collections = example_collections,
      selectedCollection = Some (hd example_collections),
      paymentAmount = ''400.50'',
      paymentMethod = Some Online,
      isSubmitting = False,
      isPayModalOpen = True\<rparr>"

text \<open>A collection with amounts in rupees and paise: 500.10 paid and 1000.55 due, each the
  double that the decimal denotes; and a payment of 0.07.\<close>

definition paise_collection :: collection where
  "paise_collection =
     \<lparr>historyId = 21, studentId = 3, name = ''Meena Das'', shiftTitle = None,
      totalFee = round_double (150065 / 100), amountPaid = round_double (5001 / 10),
      dueAmount = round_double (100055 / 100), cash = round_double (5001 / 10), online = 0,
      securityMoney = 0, remark = [], createdAt = None,
      branchId = None, branchName = None, phone = ''N/A''\<rparr>"

definition paise_payment :: real where
  "paise_payment = round_double (7 / 100)"

section \<open>Lemmas about the handlers\<close>

lemma status_json_response [simp]: "status (json_response c v) = c"
  by (simp add: json_response_def)

lemma body_json_response [simp]: "body (json_response c v) = v"
  by (simp add: json_response_def)

lemma guarded_report:
  "guarded (checkAdminOrStaff s) s h =
     (case user s of
        None \<Rightarrow>
          \<lparr>reply = json_response 401 (message_body ''Unauthorized - Please log in''),
           session_after = Some s, queries = []\<rparr>
      | Some u \<Rightarrow>
          if role u = ''admin'' \<or> role u = ''staff''
          then \<lparr>reply = fst h, session_after = Some s, queries = snd h\<rparr>
          else \<lparr>reply = json_response 403
                  (message_body ''Forbidden: Admin or Staff access required''),
                session_after = Some s, queries = []\<rparr>)"
  by (simp add: guarded_def checkAdminOrStaff_def split: option.split)

lemma status_server_error [simp]: "status (server_error m f) = 500"
  by (simp add: server_error_def)

lemma message_server_error [simp]: "message_of (body (server_error m f)) = Some m"
  by (simp add: server_error_def message_of_def)

lemma message_message_body [simp]: "message_of (message_body m) = Some m"
  by (simp add: message_body_def message_of_def)

lemma status_invalid_month [simp]: "status invalid_month = 400"
  by (simp add: invalid_month_def)

lemma message_invalid_month [simp]:
  "message_of (body invalid_month) = Some ''Invalid month format, use YYYY-MM''"
  by (simp add: invalid_month_def)

lemma profit_loss_queries_cases:
  "(\<exists>f. profit_loss_queries e mo br ps = (server_error ''Server error'' f,
           [(CollectionsQuery br, ps)])
        \<and> (\<exists>err. pool e (CollectionsQuery br) ps = Inl err))
   \<or> (\<exists>f. profit_loss_queries e mo br ps = (server_error ''Server error'' f,
           [(CollectionsQuery br, ps), (ExpensesQuery br, ps)]))
   \<or> (\<exists>c cs x xs.
         pool e (CollectionsQuery br) ps = Inr (c # cs)
       \<and> pool e (ExpensesQuery br) ps = Inr (x # xs)
       \<and> profit_loss_queries e mo br ps =
           (json_response 200
              (JObj [(''month'', JStr mo),
                     (''totalCollected'',
                      JNum (or_zero (parseFloat_cell e (map_of c ''total_collected'')))),
                     (''totalExpenses'',
                      JNum (or_zero (parseFloat_cell e (map_of x ''total_expenses'')))),
                     (''profitLoss'',
                      JNum (or_zero (parseFloat_cell e (map_of c ''total_collected''))
                            - or_zero (parseFloat_cell e (map_of x ''total_expenses''))))]),
            [(CollectionsQuery br, ps), (ExpensesQuery br, ps)]))"
  by (simp add: profit_loss_queries_def Let_def split: sum.split list.split) blast



lemma error_reply_simps [simp]:
  "error_reply invalid_month"
  "error_reply (server_error m f)"
  "c \<in> {400, 401, 403, 500} \<Longrightarrow> error_reply (json_response c (message_body m))"
  by (simp_all add: error_reply_def)







section \<open>Lemmas about months and dates\<close>

lemma is_digit_value: "is_digit c \<Longrightarrow> digit_value c \<le> 9"
  by (auto simp add: is_digit_def digit_value_def)

lemma is_digit_not_dash: "is_digit c \<Longrightarrow> c \<noteq> CHR ''-''"
  by (auto simp add: is_digit_def)

lemma foldl_digits_bound:
  "list_all is_digit s \<Longrightarrow>
     foldl (\<lambda>n c. 10 * n + digit_value c) a s < (a + 1) * 10 ^ length s"
proof (induction s arbitrary: a)
  case Nil
  then show ?case by simp
next
  case (Cons c s)
  from Cons.prems have d: "digit_value c \<le> 9" and rest: "list_all is_digit s"
    by (simp_all add: is_digit_value)
  have "foldl (\<lambda>n c. 10 * n + digit_value c) (10 * a + digit_value c) s
          < (10 * a + digit_value c + 1) * 10 ^ length s"
    using Cons.IH [OF rest] .
  also have "\<dots> \<le> (10 * (a + 1)) * 10 ^ length s"
    using d by (intro mult_right_mono) simp_all
  finally show ?case by (simp add: algebra_simps)
qed

lemma nat_of_digits_bound:
  "list_all is_digit s \<Longrightarrow> nat_of_digits s < 10 ^ length s"
  using foldl_digits_bound [of s 0] by (simp add: nat_of_digits_def)

lemma split_on_absent: "sep \<notin> set xs \<Longrightarrow> split_on sep xs = [xs]"
  by (induction xs) auto

lemma split_on_first:
  "sep \<notin> set xs \<Longrightarrow> split_on sep (xs @ sep # ys) = xs # split_on sep ys"
  by (induction xs) auto

lemma digits_no_dash: "list_all is_digit s \<Longrightarrow> CHR ''-'' \<notin> set s"
  by (induction s) (auto dest: is_digit_not_dash)

lemma month_format_split:
  assumes "month_format mo"
  shows "split_on CHR ''-'' mo = [take 4 mo, drop 5 mo]"
proof -
  from assms have len: "length mo = 7" and y: "list_all is_digit (take 4 mo)"
      and dash: "mo ! 4 = CHR ''-''" and m: "list_all is_digit (drop 5 mo)"
    by (simp_all add: month_format_def)
  have "4 < length mo" using len by simp
  then have "drop 4 mo = mo ! 4 # drop (Suc 4) mo"
    by (rule Cons_nth_drop_Suc [symmetric])
  with dash have d4: "drop 4 mo = CHR ''-'' # drop 5 mo" by simp
  have "mo = take 4 mo @ drop 4 mo" by simp
  with d4 have eq: "mo = take 4 mo @ CHR ''-'' # drop 5 mo" by simp
  have "split_on CHR ''-'' (take 4 mo @ CHR ''-'' # drop 5 mo)
          = take 4 mo # split_on CHR ''-'' (drop 5 mo)"
    using y by (intro split_on_first digits_no_dash)
  also have "split_on CHR ''-'' (drop 5 mo) = [drop 5 mo]"
    using m by (intro split_on_absent digits_no_dash)
  finally show ?thesis using eq by simp
qed

lemma MakeDay_bound:
  assumes "0 \<le> y" "y \<le> 9999" "0 \<le> m" "m \<le> 99"
  shows "\<bar>MakeDay y m 0\<bar> \<le> 4000000"
proof -
  define y' where "y' = (if m mod 12 + 1 \<le> 2 then y + m div 12 - 1 else y + m div 12)"
  define k where "k = (if m mod 12 + 1 > 2 then m mod 12 + 1 - 3 else m mod 12 + 1 + 9)"
  have y'b: "-1 \<le> y'" "y' \<le> 10007" using assms unfolding y'_def by auto
  have kb: "0 \<le> k" "k \<le> 11" unfolding k_def by auto
  have era: "-1 \<le> y' div 400" "y' div 400 \<le> 25" using y'b by auto
  have yoe: "0 \<le> y' mod 400" "y' mod 400 < 400" by auto
  have q4: "0 \<le> y' mod 400 div 4" "y' mod 400 div 4 \<le> 99" using yoe by auto
  have q100: "0 \<le> y' mod 400 div 100" "y' mod 400 div 100 \<le> 3" using yoe by auto
  have doy: "0 \<le> (153 * k + 2) div 5" "(153 * k + 2) div 5 \<le> 337" using kb by auto
  have "MakeDay y m 0 = y' div 400 * 146097
          + (y' mod 400 * 365 + y' mod 400 div 4 - y' mod 400 div 100 + ((153 * k + 2) div 5 + 1 - 1))
          - 719468 - 1"
    unfolding MakeDay_def days_from_civil_def Let_def y'_def k_def by simp
  with era yoe q4 q100 doy show ?thesis by linarith
qed

lemma month_format_date_valid:
  assumes mf: "month_format mo" and tz: "\<forall>t. \<bar>tza t\<bar> < msPerDay"
  shows "\<exists>tv. new_Date tza (ToNumber (element (split_on CHR ''-'' mo) 0))
                  (ToNumber (element (split_on CHR ''-'' mo) 1)) 0 = Some tv"
proof -
  from mf have len: "length mo = 7" and yd: "list_all is_digit (take 4 mo)"
      and md: "list_all is_digit (drop 5 mo)"
    by (simp_all add: month_format_def)
  define y where "y = int (nat_of_digits (take 4 mo))"
  define m where "m = int (nat_of_digits (drop 5 mo))"
  have yb: "0 \<le> y" "y \<le> 9999"
    using nat_of_digits_bound [OF yd] len by (simp_all add: y_def)
  have mb: "0 \<le> m" "m \<le> 99"
    using nat_of_digits_bound [OF md] len by (simp_all add: m_def)
  define yr where "yr = (if 0 \<le> y \<and> y \<le> 99 then 1900 + y else y)"
  have yrb: "0 \<le> yr" "yr \<le> 9999" using yb by (auto simp add: yr_def)
  have day: "\<bar>MakeDay yr m 0\<bar> \<le> 4000000"
    using MakeDay_bound [OF yrb mb] .
  define t where "t = MakeDay yr m 0 * msPerDay"
  have tb: "\<bar>t\<bar> \<le> 4000000 * 86400000"
    using day by (simp add: t_def msPerDay_def abs_mult)
  from tz have "\<bar>tza t\<bar> < 86400000" by (simp add: msPerDay_def)
  with tb have clip: "\<bar>t - tza t\<bar> \<le> 8640000000000000" by linarith
  have ynum: "ToNumber (element (split_on CHR ''-'' mo) 0) = Some y"
    using yd by (simp add: month_format_split [OF mf] element_def ToNumber_def y_def)
  have mnum: "ToNumber (element (split_on CHR ''-'' mo) 1) = Some m"
    using md by (simp add: month_format_split [OF mf] element_def ToNumber_def m_def)
  have "new_Date tza (Some y) (Some m) 0 = Some (t - tza t)"
    using clip by (simp add: new_Date_def Let_def yr_def [symmetric] t_def [symmetric])
  then have "new_Date tza (ToNumber (element (split_on CHR ''-'' mo) 0))
          (ToNumber (element (split_on CHR ''-'' mo) 1)) 0 = Some (t - tza t)"
    by (simp only: ynum mnum)
  then show ?thesis ..
qed

lemma toISOString_Some: "\<exists>txt. toISOString (Some tv) = Inr txt"
  by (simp add: toISOString_def Let_def split: prod.split)

lemma month_format_nonempty: "month_format mo \<Longrightarrow> mo \<noteq> []"
  by (auto simp add: month_format_def)

lemma profit_loss_valid_month:
  assumes mf: "month_format mo" and tz: "\<forall>t. \<bar>LocalTZA e t\<bar> < msPerDay"
  shows "\<exists>ps. profit_loss e (Some mo) bid =
           (case bid of
              None \<Rightarrow> profit_loss_queries e mo False ps
            | Some b \<Rightarrow>
                if b = [] then profit_loss_queries e mo False ps
                else (case parseInt10 b of
                        None \<Rightarrow> (json_response 400 (message_body ''Invalid branch ID''), [])
                      | Some n \<Rightarrow> profit_loss_queries e mo True (ps @ [PNum n])))"
proof -
  from month_format_date_valid [OF mf tz] obtain tv where
    d: "new_Date (LocalTZA e) (ToNumber (element (split_on CHR ''-'' mo) 0))
          (ToNumber (element (split_on CHR ''-'' mo) 1)) 0 = Some tv"
    by blast
  from toISOString_Some [of tv] obtain stamp where i: "toISOString (Some tv) = Inr stamp"
    by blast
  define ps where
    "ps = [PStr (template_text (element (split_on CHR ''-'' mo) 0) @ ''-''
                 @ template_text (element (split_on CHR ''-'' mo) 1) @ ''-01''),
           PStr (hd (split_on CHR ''T'' stamp))]"
  have "profit_loss e (Some mo) bid =
           (case bid of
              None \<Rightarrow> profit_loss_queries e mo False ps
            | Some b \<Rightarrow>
                if b = [] then profit_loss_queries e mo False ps
                else (case parseInt10 b of
                        None \<Rightarrow> (json_response 400 (message_body ''Invalid branch ID''), [])
                      | Some n \<Rightarrow> profit_loss_queries e mo True (ps @ [PNum n])))"
    using mf month_format_nonempty [OF mf]
    by (simp add: profit_loss_def Let_def d [unfolded One_nat_def] i ps_def
          split: option.split)
  then show ?thesis ..
qed

lemma profit_loss_queries_status:
  "status (fst (profit_loss_queries e mo br ps)) = 200
   \<or> status (fst (profit_loss_queries e mo br ps)) = 500"
  using profit_loss_queries_cases [of e mo br ps] by auto

lemma response_distinct:
  "invalid_month \<noteq> json_response 400 (message_body ''Invalid branch ID'')"
  by (simp add: invalid_month_def json_response_def message_body_def)

section \<open>Lemmas about the pages\<close>

lemma includes_str_empty [simp]: "includes_str s []"
  by (simp add: includes_str_def)

lemma includes_str_in_empty [simp]: "includes_str [] t \<longleftrightarrow> t = []"
  by (simp add: includes_str_def)


lemma paid_fields:
  "amountPaid (paid m p c) = js_add (amountPaid c) p"
  "dueAmount (paid m p c) = js_sub (dueAmount c) p"
  "cash (paid m p c) = (if m = Cash then js_add (cash c) p else cash c)"
  "online (paid m p c) = (if m = Online then js_add (online c) p else online c)"
  "(paid m p c)\<lparr>amountPaid := amountPaid c, dueAmount := dueAmount c,
                 cash := cash c, online := online c\<rparr> = c"
  by (cases m; simp add: paid_def)+

section \<open>Lemmas about doubles\<close>

lemma round_even_of_int [simp]: "round_even (of_int k) = k"
  by (simp add: round_even_def)

lemma pow2_nonpos: "k \<le> 0 \<Longrightarrow> pow2 k = 1 / 2 ^ nat (- k)"
  by (cases "k = 0") (simp_all add: pow2_def)

text \<open>An integer of magnitude below \<open>2\<close> to the 53 is a double.\<close>

lemma round_double_of_int:
  assumes "\<bar>n\<bar> < 2 ^ 53"
  shows "round_double (of_int n) = of_int n"
proof (cases "n = 0")
  case True
  then show ?thesis by (simp add: round_double_def)
next
  case False
  then have pos: "0 < \<bar>n\<bar>" by simp
  have "1 \<le> real_of_int \<bar>n\<bar>"
    using pos by linarith
  then have one: "1 \<le> \<bar>real_of_int n\<bar>"
    by simp
  have "\<lfloor>real_of_int \<bar>n\<bar>\<rfloor> = \<bar>n\<bar>"
    by (rule floor_of_int)
  then have fl: "\<lfloor>\<bar>real_of_int n\<bar>\<rfloor> = \<bar>n\<bar>"
    by simp
  have e: "exponent_of (of_int n) = bitlen \<bar>n\<bar> - 1"
    using one by (simp add: exponent_of_def fl)
  from pos have lo: "1 \<le> bitlen \<bar>n\<bar>"
    by (simp add: bitlen_alt_def)
  from assms have hi: "bitlen \<bar>n\<bar> \<le> 53"
    by (simp add: bitlen_le_iff_power)
  define j where "j = nat (53 - bitlen \<bar>n\<bar>)"
  from lo hi have m: "max (bitlen \<bar>n\<bar> - 1) (- 1022) = bitlen \<bar>n\<bar> - 1"
    by simp
  from lo hi have u: "pow2 (bitlen \<bar>n\<bar> - 1 - 52) = 1 / 2 ^ j"
    by (simp add: pow2_nonpos j_def algebra_simps)
  have q: "real_of_int n / (1 / 2 ^ j) = of_int (n * 2 ^ j)"
    by simp
  have "round_double (of_int n) = of_int (round_even (of_int (n * 2 ^ j))) * (1 / 2 ^ j)"
    using False unfolding round_double_def e m Let_def u q by simp
  also have "\<dots> = of_int n"
    by (simp only: round_even_of_int) simp
  finally show ?thesis .
qed

lemma whole_amount_sum:
  assumes "whole_amount a" "whole_amount b"
  shows "js_add a b = a + b" "js_sub a b = a - b"
proof -
  from assms obtain m n where a: "a = of_int m" and b: "b = of_int n"
      and mb: "0 \<le> m" "m < 2 ^ 52" and nb: "0 \<le> n" "n < 2 ^ 52"
    unfolding whole_amount_def
    by (metis of_int_0_le_iff of_int_less_numeral_power_cancel_iff)
  have "\<bar>m + n\<bar> < 2 ^ 53" "\<bar>m - n\<bar> < 2 ^ 53"
    using mb nb by simp_all
  then show "js_add a b = a + b" "js_sub a b = a - b"
    using round_double_of_int [of "m + n"] round_double_of_int [of "m - n"]
    by (simp_all add: js_add_def js_sub_def a b)
qed

section \<open>The report routes: claims C1 to C4\<close>



text \<open>
  Claim C2. On \<^verbatim>\<open>GET /reports/profit-loss\<close> and \<^verbatim>\<open>GET /reports/monthly-collections\<close>: a
  session without a user is answered 401 and a user whose role is neither \<open>admin\<close> nor
  \<open>staff\<close> is answered 403, in both cases with no database call; a database call is
  made only for a user whose role is \<open>admin\<close> or \<open>staff\<close>.
\<close>

theorem report_routes_guarded:
  assumes "rq = GetProfitLoss mth bid \<or> rq = GetMonthlyCollections mth"
  shows "(user s = None \<longrightarrow>
            status (reply (handle e rq s)) = 401 \<and> queries (handle e rq s) = [])
       \<and> (\<forall>u. user s = Some u \<and> role u \<noteq> ''admin'' \<and> role u \<noteq> ''staff'' \<longrightarrow>
            status (reply (handle e rq s)) = 403 \<and> queries (handle e rq s) = [])
       \<and> (queries (handle e rq s) \<noteq> [] \<longrightarrow>
            (\<exists>u. user s = Some u \<and> (role u = ''admin'' \<or> role u = ''staff'')))"
  using assms
  by (auto simp add: handle_def guarded_report split: option.splits if_splits)

text \<open>
  The witness for C2: without a session user the profit-and-loss route answers 401, and
  for a user with the role \<open>member\<close> the monthly collections route answers 403; neither
  request reaches the database.
\<close>

theorem report_routes_guarded_witness:
  "status (reply (handle (example_env 0) (GetProfitLoss (Some ''2024-02'') None) no_session))
     = 401
   \<and> queries (handle (example_env 0) (GetProfitLoss (Some ''2024-02'') None) no_session) = []
   \<and> status (reply (handle (example_env 0) (GetMonthlyCollections (Some ''2024-02''))
        member_session)) = 403
   \<and> queries (handle (example_env 0) (GetMonthlyCollections (Some ''2024-02''))
        member_session) = []"
proof -
  have a: "status (reply (handle (example_env 0) (GetProfitLoss (Some ''2024-02'') None)
               no_session)) = 401
         \<and> queries (handle (example_env 0) (GetProfitLoss (Some ''2024-02'') None)
               no_session) = []"
    using report_routes_guarded
      [where rq = "GetProfitLoss (Some ''2024-02'') None" and mth = "Some ''2024-02''"
         and bid = None and s = no_session and e = "example_env 0"]
    by (simp add: no_session_def)
  have b: "status (reply (handle (example_env 0) (GetMonthlyCollections (Some ''2024-02''))
               member_session)) = 403
         \<and> queries (handle (example_env 0) (GetMonthlyCollections (Some ''2024-02''))
               member_session) = []"
    using report_routes_guarded
      [where rq = "GetMonthlyCollections (Some ''2024-02'')" and mth = "Some ''2024-02''"
         and s = member_session and e = "example_env 0"]
    by (simp add: member_session_def)
  from a b show ?thesis by simp
qed

text \<open>
  The date range of the report routes, evaluated. On a server on UTC, or west of it,
  the routes query from the first to the last day for these months, leap February
  included:
\<close>

lemma month_range_utc_examples:
  "queries (handle (example_env 0) (GetMonthlyCollections (Some ''2024-02'')) admin_session)
     = [(MonthlyCollectionsQuery, [PStr ''2024-02-01'', PStr ''2024-02-29''])]"
  "queries (handle (example_env 0) (GetMonthlyCollections (Some ''2023-02'')) admin_session)
     = [(MonthlyCollectionsQuery, [PStr ''2023-02-01'', PStr ''2023-02-28''])]"
  "queries (handle (example_env (- 18000000)) (GetMonthlyCollections (Some ''2024-12''))
      admin_session)
     = [(MonthlyCollectionsQuery, [PStr ''2024-12-01'', PStr ''2024-12-31''])]"
  by code_simp+

text \<open>
  Claim C3 says that for every month that matches the pattern both report routes query
  from the first to the last calendar day of that month, and it fails on the code.
  \<^verbatim>\<open>new Date(year, monthNum, 0)\<close> is the local midnight of
  the last day of the month, and \<^verbatim>\<open>toISOString()\<close> prints the UTC date of that instant.
  On a server five and a half hours east of UTC that is the day before, so for January
  2024 both routes query up to the 30th. And on any server the constructor reads a year
  from 0 to 99 as 1900 + year, so for the month 0024-01 the range runs from year 24 to
  1924.
\<close>

theorem month_range_wrong_end:
  "queries (handle (example_env 19800000) (GetProfitLoss (Some ''2024-01'') None)
      admin_session)
     = [(CollectionsQuery False, [PStr ''2024-01-01'', PStr ''2024-01-30'']),
        (ExpensesQuery False, [PStr ''2024-01-01'', PStr ''2024-01-30''])]
   \<and> queries (handle (example_env 19800000) (GetMonthlyCollections (Some ''2024-01''))
        admin_session)
     = [(MonthlyCollectionsQuery, [PStr ''2024-01-01'', PStr ''2024-01-30''])]
   \<and> queries (handle (example_env 0) (GetProfitLoss (Some ''0024-01'') None) admin_session)
     = [(CollectionsQuery False, [PStr ''0024-01-01'', PStr ''1924-01-31'']),
        (ExpensesQuery False, [PStr ''0024-01-01'', PStr ''1924-01-31''])]"
  by code_simp

text \<open>
  Claim C4 says that the profit-and-loss route answers 400 \<open>Invalid branch ID\<close> exactly
  when the month is valid, \<^verbatim>\<open>branchId\<close> is present and \<^verbatim>\<open>parseInt(branchId, 10)\<close> is
  \<^verbatim>\<open>NaN\<close>. The handler tests \<^verbatim>\<open>if (branchId)\<close> first, and an empty string is falsy: for
  \<^verbatim>\<open>?month=2024-01&branchId=\<close> the parameter is present and its \<^verbatim>\<open>parseInt\<close> is
  \<^verbatim>\<open>NaN\<close>, yet the administrator gets the report of all branches, status 200.
\<close>

theorem empty_branchId_counterexample:
  "month_format ''2024-01''
   \<and> parseInt10 [] = None
   \<and> status (reply (handle (example_env 0) (GetProfitLoss (Some ''2024-01'') (Some []))
        admin_session)) = 200
   \<and> reply (handle (example_env 0) (GetProfitLoss (Some ''2024-01'') (Some []))
        admin_session) \<noteq> json_response 400 (message_body ''Invalid branch ID'')"
proof -
  have a: "month_format ''2024-01''"
    by code_simp
  have b: "parseInt10 [] = None"
    by code_simp
  have c: "status (reply (handle (example_env 0) (GetProfitLoss (Some ''2024-01'') (Some []))
             admin_session)) = 200"
    by code_simp
  have "reply (handle (example_env 0) (GetProfitLoss (Some ''2024-01'') (Some []))
        admin_session) \<noteq> json_response 400 (message_body ''Invalid branch ID'')"
  proof
    assume "reply (handle (example_env 0) (GetProfitLoss (Some ''2024-01'') (Some []))
        admin_session) = json_response 400 (message_body ''Invalid branch ID'')"
    then have "status (reply (handle (example_env 0)
        (GetProfitLoss (Some ''2024-01'') (Some [])) admin_session)) = 400"
      by simp
    with c show False by simp
  qed
  with a b c show ?thesis by simp
qed

text \<open>
  Claim C4, amended. For a request of an \<open>admin\<close> or \<open>staff\<close> user in which
  \<^verbatim>\<open>month\<close> and \<^verbatim>\<open>branchId\<close> are each absent or given once as a string (not repeated and
  not bracketed, so that neither is an array or an object), on a server whose offset from
  UTC is less than a day: the route answers 400 \<open>Invalid month format, use YYYY-MM\<close>
  exactly when the month is absent or does not match the pattern; it answers 400
  \<open>Invalid branch ID\<close> exactly when the month matches, \<^verbatim>\<open>branchId\<close> is a non-empty string
  and \<^verbatim>\<open>parseInt(branchId, 10)\<close> is \<^verbatim>\<open>NaN\<close>; and it answers 400 in no other case.
  The parameters of the theorem are optional strings.
\<close>

theorem profit_loss_bad_requests:
  assumes auth: "user s = Some u" "role u = ''admin'' \<or> role u = ''staff''"
      and tz: "\<forall>t. \<bar>LocalTZA e t\<bar> < msPerDay"
  shows "(reply (handle e (GetProfitLoss mth bid) s) = invalid_month
            \<longleftrightarrow> (\<forall>mo. mth = Some mo \<longrightarrow> \<not> month_format mo))
       \<and> (reply (handle e (GetProfitLoss mth bid) s)
              = json_response 400 (message_body ''Invalid branch ID'')
            \<longleftrightarrow> (\<exists>mo b. mth = Some mo \<and> month_format mo \<and> bid = Some b \<and> b \<noteq> []
                       \<and> parseInt10 b = None))
       \<and> (status (reply (handle e (GetProfitLoss mth bid) s)) = 400
            \<longrightarrow> reply (handle e (GetProfitLoss mth bid) s) = invalid_month
              \<or> reply (handle e (GetProfitLoss mth bid) s)
                  = json_response 400 (message_body ''Invalid branch ID''))"
proof -
  let ?r = "reply (handle e (GetProfitLoss mth bid) s)"
  let ?bad = "json_response 400 (message_body ''Invalid branch ID'')"
  from auth have r: "?r = fst (profit_loss e mth bid)"
    by (auto simp add: handle_def guarded_report)
  show ?thesis
  proof (cases "\<exists>mo. mth = Some mo \<and> month_format mo")
    case False
    then have "fst (profit_loss e mth bid) = invalid_month"
      by (auto simp add: profit_loss_def split: option.split)
    with False r response_distinct show ?thesis by auto
  next
    case True
    then obtain mo where mo: "mth = Some mo" "month_format mo" by blast
    from profit_loss_valid_month [OF mo(2) tz, of bid] obtain ps where
      pl: "profit_loss e (Some mo) bid =
           (case bid of
              None \<Rightarrow> profit_loss_queries e mo False ps
            | Some b \<Rightarrow>
                if b = [] then profit_loss_queries e mo False ps
                else (case parseInt10 b of
                        None \<Rightarrow> (?bad, [])
                      | Some n \<Rightarrow> profit_loss_queries e mo True (ps @ [PNum n])))"
      by blast
    have q: "\<And>br qs. fst (profit_loss_queries e mo br qs) \<noteq> invalid_month
                   \<and> fst (profit_loss_queries e mo br qs) \<noteq> ?bad
                   \<and> status (fst (profit_loss_queries e mo br qs)) \<noteq> 400"
    proof -
      fix br qs
      from profit_loss_queries_status [of e mo br qs]
      have st: "status (fst (profit_loss_queries e mo br qs)) \<noteq> 400"
        by auto
      then have "fst (profit_loss_queries e mo br qs) \<noteq> invalid_month"
        by (metis status_invalid_month)
      moreover from st have "fst (profit_loss_queries e mo br qs) \<noteq> ?bad"
        by (metis status_json_response)
      ultimately show "fst (profit_loss_queries e mo br qs) \<noteq> invalid_month
          \<and> fst (profit_loss_queries e mo br qs) \<noteq> ?bad
          \<and> status (fst (profit_loss_queries e mo br qs)) \<noteq> 400"
        using st by simp
    qed
    show ?thesis
    proof (cases bid)
      case None
      with pl mo r q [of False ps] response_distinct show ?thesis by simp
    next
      case (Some b)
      show ?thesis
      proof (cases "b = []")
        case True
        with Some pl mo r q [of False ps] response_distinct show ?thesis by simp
      next
        case False
        show ?thesis
        proof (cases "parseInt10 b")
          case None
          with False Some pl mo r response_distinct show ?thesis by simp
        next
          case (Some n)
          with False \<open>bid = Some b\<close> pl mo r q [of True "ps @ [PNum n]"] response_distinct
          show ?thesis by simp
        qed
      qed
    qed
  qed
qed

text \<open>
  The witness for C4: for the administrator of the example, \<^verbatim>\<open>branchId=abc\<close> with a valid
  month is answered \<open>Invalid branch ID\<close>, and the month \<^verbatim>\<open>2024-1\<close> is answered
  \<open>Invalid month format\<close>.
\<close>

theorem profit_loss_bad_requests_witness:
  "reply (handle (example_env 0) (GetProfitLoss (Some ''2024-01'') (Some ''abc''))
      admin_session)
     = json_response 400 (message_body ''Invalid branch ID'')
   \<and> reply (handle (example_env 0) (GetProfitLoss (Some ''2024-1'') (Some ''7''))
        admin_session)
     = invalid_month"
proof -
  have u: "user admin_session
             = Some \<lparr>user_id = 1, username = ''asha'', role = ''admin'', permissions = None\<rparr>"
    by (simp add: admin_session_def)
  have r: "role \<lparr>user_id = 1, username = ''asha'', role = ''admin'', permissions = None\<rparr>
             = ''admin''
           \<or> role \<lparr>user_id = 1, username = ''asha'', role = ''admin'', permissions = None\<rparr>
             = ''staff''"
    by simp
  have tz: "\<forall>t. \<bar>LocalTZA (example_env 0) t\<bar> < msPerDay"
    by (simp add: example_env_def msPerDay_def)
  have m1: "month_format ''2024-01''" by code_simp
  have m2: "\<not> month_format ''2024-1''" by code_simp
  have p: "parseInt10 ''abc'' = None" by code_simp
  from profit_loss_bad_requests [OF u r tz, of "Some ''2024-01''" "Some ''abc''"] m1 p
  have a: "reply (handle (example_env 0) (GetProfitLoss (Some ''2024-01'') (Some ''abc''))
             admin_session) = json_response 400 (message_body ''Invalid branch ID'')"
    by simp
  from profit_loss_bad_requests [OF u r tz, of "Some ''2024-1''" "Some ''7''"] m2
  have b: "reply (handle (example_env 0) (GetProfitLoss (Some ''2024-1'') (Some ''7''))
             admin_session) = invalid_month"
    by simp
  from a b show ?thesis by simp
qed

section \<open>All routes: claims C5 and C6\<close>

text \<open>
  Claim C5 says that no handler writes or destroys the session. The login handler
  writes it and the logout handler destroys it: after a login with the right password the
  session that had no user is the administrator's, and after a logout there is no session.
\<close>

theorem login_writes_session_counterexample:
  "session_after (handle (example_env 0)
      (PostLogin (Some \<lparr>body_username = Some ''asha'', body_password = Some ''s3cret''\<rparr>))
      no_session)
     = Some admin_session
   \<and> admin_session \<noteq> no_session
   \<and> session_after (handle (example_env 0) GetLogout admin_session) = None"
  by (simp add: handle_def login_def logout_def example_env_def example_users_def
        admin_session_def no_session_def)

text \<open>
  Claim C5, amended. The two report routes and \<^verbatim>\<open>GET /status\<close> leave the session as it
  was. \<^verbatim>\<open>POST /login\<close> leaves it as it was unless it answers 200, and then it has set
  \<^verbatim>\<open>session.user\<close> to the id, username and role of the first users row for the given
  username, whose password is the given one. \<^verbatim>\<open>GET /logout\<close> destroys the session when
  the store succeeds and leaves it when the store fails.
\<close>

theorem session_effects:
  "(rq \<noteq> GetLogout \<and> (\<forall>b. rq \<noteq> PostLogin b) \<longrightarrow>
      session_after (handle e rq s) = Some s)
   \<and> (\<forall>b. rq = PostLogin b \<and> status (reply (handle e rq s)) \<noteq> 200 \<longrightarrow>
         session_after (handle e rq s) = Some s)
   \<and> (\<forall>b. rq = PostLogin b \<and> status (reply (handle e rq s)) = 200 \<longrightarrow>
         (\<exists>bd uname u us.
            b = Some bd
          \<and> body_username bd = Some uname
          \<and> users e uname = Inr (u # us)
          \<and> body_password bd = Some (row_password u)
          \<and> session_after (handle e rq s) =
              Some (s\<lparr>user := Some \<lparr>user_id = row_id u, username = row_username u,
                                     role = row_role u, permissions = None\<rparr>\<rparr>)))
   \<and> (rq = GetLogout \<and> store_destroy e = None \<longrightarrow>
         session_after (handle e rq s) = None)
   \<and> (rq = GetLogout \<and> store_destroy e \<noteq> None \<longrightarrow>
         session_after (handle e rq s) = Some s)"
proof (intro conjI allI impI)
  assume "rq \<noteq> GetLogout \<and> (\<forall>b. rq \<noteq> PostLogin b)"
  then show "session_after (handle e rq s) = Some s"
    by (cases rq) (simp_all add: handle_def guarded_report auth_status_def split: option.split)
next
  fix b
  assume "rq = PostLogin b \<and> status (reply (handle e rq s)) \<noteq> 200"
  then show "session_after (handle e rq s) = Some s"
    by (auto simp add: handle_def login_def
          split: option.splits sum.splits list.splits if_splits)
next
  fix b
  assume "rq = PostLogin b \<and> status (reply (handle e rq s)) = 200"
  then show "\<exists>bd uname u us.
            b = Some bd
          \<and> body_username bd = Some uname
          \<and> users e uname = Inr (u # us)
          \<and> body_password bd = Some (row_password u)
          \<and> session_after (handle e rq s) =
              Some (s\<lparr>user := Some \<lparr>user_id = row_id u, username = row_username u,
                                     role = row_role u, permissions = None\<rparr>\<rparr>)"
    by (auto simp add: handle_def login_def missing_credentials_def
          split: option.splits sum.splits list.splits if_splits)
next
  assume "rq = GetLogout \<and> store_destroy e = None"
  then show "session_after (handle e rq s) = None"
    by (simp add: handle_def logout_def)
next
  assume "rq = GetLogout \<and> store_destroy e \<noteq> None"
  then show "session_after (handle e rq s) = Some s"
    by (auto simp add: handle_def logout_def split: option.splits)
qed

text \<open>
  The witness for C5: the status route leaves the administrator's session, a login with
  a wrong password leaves the empty session, and a logout removes the session.
\<close>

theorem session_effects_witness:
  "session_after (handle (example_env 0) GetStatus admin_session) = Some admin_session
   \<and> session_after (handle (example_env 0)
        (PostLogin (Some \<lparr>body_username = Some ''asha'', body_password = Some ''guess''\<rparr>))
        no_session) = Some no_session
   \<and> session_after (handle (example_env 0) GetLogout admin_session) = None"
proof -
  have bad: "status (reply (handle (example_env 0)
        (PostLogin (Some \<lparr>body_username = Some ''asha'', body_password = Some ''guess''\<rparr>))
        no_session)) \<noteq> 200"
    by (simp add: handle_def login_def example_env_def example_users_def)
  have sd: "store_destroy (example_env 0) = None"
    by (simp add: example_env_def)
  from session_effects [of GetStatus "example_env 0" admin_session]
  have a: "session_after (handle (example_env 0) GetStatus admin_session) = Some admin_session"
    by simp
  from session_effects [of "PostLogin (Some \<lparr>body_username = Some ''asha'',
          body_password = Some ''guess''\<rparr>)" "example_env 0" no_session] bad
  have b: "session_after (handle (example_env 0)
        (PostLogin (Some \<lparr>body_username = Some ''asha'', body_password = Some ''guess''\<rparr>))
        no_session) = Some no_session"
    by simp
  from session_effects [of GetLogout "example_env 0" admin_session] sd
  have c: "session_after (handle (example_env 0) GetLogout admin_session) = None"
    by simp
  from a b c show ?thesis by simp
qed



section \<open>The pages and the middleware: claims C7 to C10\<close>



lemma permission_unbound: "''permission'' \<notin> set checkPermission_scope"
  by (simp add: checkPermission_scope_def)

text \<open>
  Claim C8. For a session whose user has a role other than \<open>admin\<close>,
  \<^verbatim>\<open>checkPermission\<close> throws a ReferenceError for the identifier \<^verbatim>\<open>permission\<close>: it
  neither sends the 403 response nor calls \<^verbatim>\<open>next()\<close>.
\<close>

theorem checkPermission_non_admin_throws:
  assumes "user s = Some u" and "role u \<noteq> ''admin''"
  shows "checkPermission s = Throw (ReferenceError ''permission'')
       \<and> checkPermission s \<noteq> Next
       \<and> checkPermission s \<noteq>
           Respond (json_response 403 (message_body ''Forbidden - Insufficient permissions''))"
  using assms permission_unbound
  by (simp add: checkPermission_def resolve_identifier_def)

text \<open>
  The witness for C8: a user with the role \<open>member\<close>.
\<close>

theorem checkPermission_non_admin_throws_witness:
  "checkPermission member_session = Throw (ReferenceError ''permission'')"
  using checkPermission_non_admin_throws
    [of member_session
        "\<lparr>user_id = 9, username = ''ravi'', role = ''member'', permissions = None\<rparr>"]
  by (simp add: member_session_def)

text \<open>
  Claim C9 says that in the optimistic update of the CollectionDue page, for a payment
  \<open>p\<close> with \<open>0 < p\<close> and \<open>p\<close> at most the selected collection's due amount, the entry
  with the selected \<^verbatim>\<open>historyId\<close> has \<^verbatim>\<open>amountPaid\<close> increased by exactly \<open>p\<close>,
  \<^verbatim>\<open>dueAmount\<close> decreased by exactly \<open>p\<close> and the sum of the two unchanged. The amounts
  are doubles, and the update rounds: with 500.10 paid and 1000.55 due, a payment of 0.07
  makes \<^verbatim>\<open>dueAmount\<close> 1000.4799999999999, neither change is \<open>p\<close>, and the sum of the
  two amounts, 1500.65 before, is 1500.6499999999999 after, taken exactly or as
  JavaScript adds them.
\<close>

theorem optimistic_update_rounding_counterexample:
  "0 < paise_payment
   \<and> paise_payment \<le> dueAmount paise_collection
   \<and> amountPaid (updatedCollections [paise_collection] paise_collection Cash paise_payment ! 0)
       \<noteq> amountPaid paise_collection + paise_payment
   \<and> dueAmount (updatedCollections [paise_collection] paise_collection Cash paise_payment ! 0)
       \<noteq> dueAmount paise_collection - paise_payment
   \<and> amountPaid (updatedCollections [paise_collection] paise_collection Cash paise_payment ! 0)
       + dueAmount (updatedCollections [paise_collection] paise_collection Cash paise_payment ! 0)
       \<noteq> amountPaid paise_collection + dueAmount paise_collection
   \<and> js_add
         (amountPaid (updatedCollections [paise_collection] paise_collection Cash paise_payment ! 0))
         (dueAmount (updatedCollections [paise_collection] paise_collection Cash paise_payment ! 0))
       \<noteq> js_add (amountPaid paise_collection) (dueAmount paise_collection)"
proof -
  let ?u = "updatedCollections [paise_collection] paise_collection Cash paise_payment ! 0"
  have p: "paise_payment = 1261007895663739 / 2 ^ 54"
    by code_simp
  have a: "amountPaid paise_collection = 4398926120406221 / 2 ^ 43"
    by code_simp
  have d: "dueAmount paise_collection = 4400465436685107 / 2 ^ 42"
    by code_simp
  have a': "amountPaid ?u = 8799083693835551 / 2 ^ 44"
    by code_simp
  have d': "dueAmount ?u = 8800315146858659 / 2 ^ 43"
    by code_simp
  have s': "js_add (amountPaid ?u) (dueAmount ?u) = 6599928496888217 / 2 ^ 42"
    by code_simp
  have s: "js_add (amountPaid paise_collection) (dueAmount paise_collection)
             = 3299964248444109 / 2 ^ 41"
    by code_simp
  have "0 < paise_payment"
    by (subst p) simp
  moreover have "paise_payment \<le> dueAmount paise_collection"
    by (subst p, subst d) simp
  moreover have "amountPaid ?u \<noteq> amountPaid paise_collection + paise_payment"
    by (subst a', subst a, subst p) simp
  moreover have "dueAmount ?u \<noteq> dueAmount paise_collection - paise_payment"
    by (subst d', subst d, subst p) simp
  moreover have "amountPaid ?u + dueAmount ?u
                   \<noteq> amountPaid paise_collection + dueAmount paise_collection"
    by (subst a', subst d', subst a, subst d) simp
  moreover have "js_add (amountPaid ?u) (dueAmount ?u)
                   \<noteq> js_add (amountPaid paise_collection) (dueAmount paise_collection)"
    by (subst s', subst s) simp
  ultimately show ?thesis
    by blast
qed

text \<open>
  Claim C9, amended. In the optimistic update, for a payment \<open>p\<close> with \<open>0 < p\<close> and \<open>p\<close>
  at most the selected collection's due amount: the list keeps its length; an entry whose
  \<^verbatim>\<open>historyId\<close> is not the selected one is unchanged; in an entry whose \<^verbatim>\<open>historyId\<close> is
  the selected one \<^verbatim>\<open>amountPaid\<close> becomes the double sum of \<^verbatim>\<open>amountPaid\<close> and \<open>p\<close>,
  \<^verbatim>\<open>dueAmount\<close> the double difference of \<^verbatim>\<open>dueAmount\<close> and \<open>p\<close>, the field of the chosen
  method (\<^verbatim>\<open>cash\<close> or \<^verbatim>\<open>online\<close>) its double sum with \<open>p\<close>, the other stays, and every
  other field is unchanged. When the entry's four amounts and \<open>p\<close> are whole numbers below
  \<open>2\<close> to the 52, these are exact: \<^verbatim>\<open>amountPaid\<close> grows by \<open>p\<close>, \<^verbatim>\<open>dueAmount\<close> shrinks
  by \<open>p\<close>, their sum is the same, and the chosen method's field grows by \<open>p\<close>.
\<close>

theorem optimistic_update_doubles:
  assumes "0 < p" and "p \<le> dueAmount sel"
  shows "length (updatedCollections cs sel m p) = length cs
       \<and> (\<forall>i < length cs.
            if historyId (cs ! i) = historyId sel
            then amountPaid (updatedCollections cs sel m p ! i) = js_add (amountPaid (cs ! i)) p
               \<and> dueAmount (updatedCollections cs sel m p ! i) = js_sub (dueAmount (cs ! i)) p
               \<and> cash (updatedCollections cs sel m p ! i)
                   = (if m = Cash then js_add (cash (cs ! i)) p else cash (cs ! i))
               \<and> online (updatedCollections cs sel m p ! i)
                   = (if m = Online then js_add (online (cs ! i)) p else online (cs ! i))
               \<and> (updatedCollections cs sel m p ! i)
                     \<lparr>amountPaid := amountPaid (cs ! i), dueAmount := dueAmount (cs ! i),
                      cash := cash (cs ! i), online := online (cs ! i)\<rparr> = cs ! i
               \<and> (whole_amount (amountPaid (cs ! i)) \<and> whole_amount (dueAmount (cs ! i))
                    \<and> whole_amount (cash (cs ! i)) \<and> whole_amount (online (cs ! i))
                    \<and> whole_amount p \<longrightarrow>
                      amountPaid (updatedCollections cs sel m p ! i) = amountPaid (cs ! i) + p
                    \<and> dueAmount (updatedCollections cs sel m p ! i) = dueAmount (cs ! i) - p
                    \<and> amountPaid (updatedCollections cs sel m p ! i)
                        + dueAmount (updatedCollections cs sel m p ! i)
                        = amountPaid (cs ! i) + dueAmount (cs ! i)
                    \<and> cash (updatedCollections cs sel m p ! i)
                        = cash (cs ! i) + (if m = Cash then p else 0)
                    \<and> online (updatedCollections cs sel m p ! i)
                        = online (cs ! i) + (if m = Online then p else 0))
            else updatedCollections cs sel m p ! i = cs ! i)"
  by (simp add: updatedCollections_def paid_fields whole_amount_sum)

text \<open>
  The witness for C9: 200 in cash on the first example collection, of which 500 is due;
  all amounts are whole, so the changes are exact.
\<close>

theorem optimistic_update_doubles_witness:
  "amountPaid (updatedCollections example_collections (hd example_collections) Cash 200 ! 0)
     = 700
   \<and> dueAmount (updatedCollections example_collections (hd example_collections) Cash 200 ! 0)
     = 300
   \<and> cash (updatedCollections example_collections (hd example_collections) Cash 200 ! 0)
     = 700
   \<and> online (updatedCollections example_collections (hd example_collections) Cash 200 ! 0)
     = 0
   \<and> updatedCollections example_collections (hd example_collections) Cash 200 ! 1
     = example_collections ! 1"
proof -
  let ?u = "updatedCollections example_collections (hd example_collections) Cash 200"
  have p: "(0::real) < 200" by simp
  have d: "200 \<le> dueAmount (hd example_collections)"
    by (simp add: example_collections_def)
  have l: "0 < length example_collections" "1 < length example_collections"
    by (simp_all add: example_collections_def)
  have h0: "historyId (example_collections ! 0) = historyId (hd example_collections)"
    by (simp add: example_collections_def)
  have h1: "historyId (example_collections ! 1) \<noteq> historyId (hd example_collections)"
    by (simp add: example_collections_def)
  have v: "amountPaid (example_collections ! 0) = 500" "dueAmount (example_collections ! 0) = 500"
     "cash (example_collections ! 0) = 500" "online (example_collections ! 0) = 0"
    by (simp_all add: example_collections_def)
  have w: "whole_amount 500" "whole_amount 0" "whole_amount 200"
    by (simp_all add: whole_amount_def)
  note step = optimistic_update_doubles
    [OF p d, of example_collections Cash, THEN conjunct2, rule_format]
  from step [OF l(1)] h0 v w
  have a: "amountPaid (?u ! 0) = 700 \<and> dueAmount (?u ! 0) = 300
         \<and> cash (?u ! 0) = 700 \<and> online (?u ! 0) = 0"
    by simp
  from step [OF l(2)] h1 have b: "?u ! 1 = example_collections ! 1"
    by simp
  from a b show ?thesis by simp
qed

text \<open>
  Claim C10. When the payment request fails, \<^verbatim>\<open>handlePaymentSubmit\<close> puts back the
  collections that were in place before the optimistic update: whatever the page has
  become while the request was out, the second part of the handler sets the collections
  to those the first part started from; and when nothing else touches the page, a failed
  submission ends with the collections it began with.
\<close>

theorem failed_payment_restores:
  "(submit_begin pf st = (st1, ts, Some pd) \<longrightarrow>
      collections (fst (submit_end pd (Failed msg) st')) = collections st)
   \<and> ((\<forall>h a m. \<exists>msg. api h a m = Failed msg) \<longrightarrow>
      collections (fst (handlePaymentSubmit pf api st)) = collections st)"
proof (intro conjI impI)
  have start: "\<And>st1 ts pd. submit_begin pf st = (st1, ts, Some pd) \<Longrightarrow>
                 originalCollections pd = collections st"
    by (auto simp add: submit_begin_def split: option.splits if_splits)
  have idle: "\<And>st1 ts. submit_begin pf st = (st1, ts, None) \<Longrightarrow> st1 = st"
    by (auto simp add: submit_begin_def split: option.splits if_splits)
  {
    assume "submit_begin pf st = (st1, ts, Some pd)"
    from start [OF this]
    show "collections (fst (submit_end pd (Failed msg) st')) = collections st"
      by (simp add: submit_end_def)
  }
  {
    assume fails: "\<forall>h a m. \<exists>msg. api h a m = Failed msg"
    obtain s1 t1 r where sb: "submit_begin pf st = (s1, t1, r)"
      by (cases "submit_begin pf st") auto
    show "collections (fst (handlePaymentSubmit pf api st)) = collections st"
    proof (cases r)
      case None
      with sb idle [of s1 t1] show ?thesis
        by (simp add: handlePaymentSubmit_def)
    next
      case (Some q)
      from fails obtain msg where
        "api (pending_historyId q) (pending_amount q) (pending_method q) = Failed msg"
        by blast
      with sb Some start [of s1 t1 q] show ?thesis
        by (simp add: handlePaymentSubmit_def submit_end_def split: prod.split)
    qed
  }
qed

text \<open>
  The witness for C10: on the example page the form passes validation, the optimistic
  update changes the list, and after the failed request the list is the original one.
\<close>

theorem failed_payment_restores_witness:
  "snd (snd (submit_begin example_parseFloat example_page)) \<noteq> None
   \<and> collections (fst (submit_begin example_parseFloat example_page)) \<noteq> example_collections
   \<and> collections (fst (handlePaymentSubmit example_parseFloat
         (\<lambda>h a m. Failed (Some ''Network Error'')) example_page)) = example_collections"
proof -
  have a: "snd (snd (submit_begin example_parseFloat example_page)) \<noteq> None
     \<and> collections (fst (submit_begin example_parseFloat example_page)) \<noteq> example_collections"
    by code_simp
  have f: "\<forall>h a m. \<exists>msg. (\<lambda>h a m. Failed (Some ''Network Error'')) h a m = Failed msg"
    by simp
  have c: "collections example_page = example_collections"
    by (simp add: example_page_def)
  from failed_payment_restores
    [of example_parseFloat example_page _ _ _ _ _ "\<lambda>h a m. Failed (Some ''Network Error'')"]
    f c
  have "collections (fst (handlePaymentSubmit example_parseFloat
         (\<lambda>h a m. Failed (Some ''Network Error'')) example_page)) = example_collections"
    by simp
  with a show ?thesis by simp
qed


end
